theory Spec2Isabelle
  imports Main "HOL-Library.Word"
begin

section \<open>The C data of \<open>pip_exec/src/main.c\<close>\<close>

text \<open>
  The program is the single function
  \<^verbatim>\<open>
  int main(int argc, char *argv[]) {
      printf("Hello from C executable!\n");
      printf("Received %d arguments:\n", argc);
      for (int i = 0; i < argc; ++i) {
          printf("  argv[%d]: %s\n", i, argv[i]);
      }
      return 0;
  }
  \<close>
  A C \<open>int\<close> is a 32-bit two's complement word, read with \<open>sint\<close> and compared with
  the signed order \<open><s\<close>. A C string is the list of its bytes (\<open>char\<close> is a byte in HOL
  too); the terminating NUL is not part of the list, so a string that a process can
  really receive contains no NUL. \<open>argv\<close> is the list of the strings that
  \<open>argv[0]\<close>, \<open>argv[1]\<close>, ... point to. Standard output is the text written so far.
\<close>

type_synonym c_int = "32 word"

datatype fault = Bad_Format | Invalid_Read

datatype vararg = Int_arg c_int | Str_arg string

section \<open>\<open>printf\<close>, for the conversions the program uses\<close>

definition digit_char :: "nat \<Rightarrow> char" where
  "digit_char d = ''0123456789'' ! d"

fun decimal :: "nat \<Rightarrow> string" where
  "decimal n = (if n < 10 then [digit_char n] else decimal (n div 10) @ [digit_char (n mod 10)])"

declare decimal.simps [simp del]

text \<open>\<open>%d\<close>: the signed decimal numeral of an \<open>int\<close>.\<close>

definition conv_d :: "c_int \<Rightarrow> string" where
  "conv_d n = (if sint n < 0 then CHR ''-'' # decimal (nat (- sint n)) else decimal (nat (sint n)))"

text \<open>\<open>%s\<close>: the bytes of the string up to its terminator.\<close>

definition conv_s :: "string \<Rightarrow> string" where
  "conv_s s = takeWhile (\<lambda>c. c \<noteq> CHR 0x00) s"

text \<open>
  The text a format string produces from its arguments, for \<open>%d\<close>, \<open>%s\<close> and
  \<open>%%\<close>. A conversion without an argument of its type is undefined behaviour in C: the
  fault \<open>Bad_Format\<close>, which also stands for every conversion that the program does not
  use. Arguments left over are ignored, as in C.
\<close>

fun format :: "string \<Rightarrow> vararg list \<Rightarrow> fault + string" where
  "format [] vs = Inr []"
| "format (c # fs) vs =
     (if c \<noteq> CHR ''%'' then map_sum id ((#) c) (format fs vs)
      else (case fs of
          [] \<Rightarrow> Inl Bad_Format
        | d # fs' \<Rightarrow>
            if d = CHR ''d'' then
              (case vs of
                Int_arg n # vs' \<Rightarrow> map_sum id ((@) (conv_d n)) (format fs' vs')
              | _ \<Rightarrow> Inl Bad_Format)
            else if d = CHR ''s'' then
              (case vs of
                Str_arg s # vs' \<Rightarrow> map_sum id ((@) (conv_s s)) (format fs' vs')
              | _ \<Rightarrow> Inl Bad_Format)
            else if d = CHR ''%'' then map_sum id ((#) CHR ''%'') (format fs' vs)
            else Inl Bad_Format))"

text \<open>
  \<open>printf\<close> appends the formatted text to standard output. The program ignores what
  \<open>printf\<close> returns, and a write that the environment refuses is outside the program:
  every write succeeds here.
\<close>

definition printf :: "string \<Rightarrow> vararg list \<Rightarrow> string \<Rightarrow> fault + string" where
  "printf fmt vs out = map_sum id ((@) out) (format fmt vs)"

section \<open>\<open>main\<close>\<close>

text \<open>
  \<open>argv[i]\<close>: reading at or beyond the end of the list is reading the null pointer that
  ends \<open>argv\<close>, or beyond the array: the fault \<open>Invalid_Read\<close>.
\<close>

definition argv_at :: "string list \<Rightarrow> c_int \<Rightarrow> fault + string" where
  "argv_at argv i =
     (if 0 \<le> sint i \<and> nat (sint i) < length argv then Inr (argv ! nat (sint i))
      else Inl Invalid_Read)"

text \<open>The loop \<open>for (int i = 0; i < argc; ++i) printf("  argv[%d]: %s\n", i, argv[i]);\<close>
  from the value \<open>i\<close> of its counter on.\<close>

function for_loop :: "c_int \<Rightarrow> string list \<Rightarrow> c_int \<Rightarrow> string \<Rightarrow> fault + string" where
  "for_loop argc argv i out =
     (if i <s argc then
        (case argv_at argv i of
          Inl e \<Rightarrow> Inl e
        | Inr a \<Rightarrow>
            (case printf ''  argv[%d]: %s\<newline>'' [Int_arg i, Str_arg a] out of
              Inl e \<Rightarrow> Inl e
            | Inr out' \<Rightarrow> for_loop argc argv (i + 1) out'))
      else Inr out)"
  by pat_completeness auto
termination
proof (relation "measure (\<lambda>(argc, argv, i, out). nat (sint argc - sint i))")
  show "wf (measure (\<lambda>(argc, argv, i, out). nat (sint argc - sint i)))" by simp
next
  fix argc :: c_int and argv :: "string list" and i :: c_int and out a out' :: string
  assume "i <s argc"
  then have lt: "sint i < sint argc" by (simp add: word_sless_alt)
  have "sint argc < 2 ^ 31" using sint_lt [of argc] by simp
  moreover have "- (2 ^ 31) \<le> sint i" using sint_ge [of i] by simp
  ultimately have "- (2 ^ 31) \<le> sint i + 1 \<and> sint i + 1 < 2 ^ 31" using lt by arith
  then have "sint (i + 1) = sint i + 1"
    by (simp add: sint_word_add signed_take_bit_int_eq_self)
  with lt show "((argc, argv, i + 1, out'), (argc, argv, i, out))
      \<in> measure (\<lambda>(argc, argv, i, out). nat (sint argc - sint i))"
    by simp
qed

declare for_loop.simps [simp del]

text \<open>\<open>main\<close> from the standard output \<open>out\<close> so far: the final standard output and the
  exit status, or the fault of an undefined behaviour.\<close>

definition main :: "c_int \<Rightarrow> string list \<Rightarrow> string \<Rightarrow> fault + string \<times> c_int" where
  "main argc argv out =
     (case printf ''Hello from C executable!\<newline>'' [] out of
       Inl e \<Rightarrow> Inl e
     | Inr out1 \<Rightarrow>
         (case printf ''Received %d arguments:\<newline>'' [Int_arg argc] out1 of
           Inl e \<Rightarrow> Inl e
         | Inr out2 \<Rightarrow>
             (case for_loop argc argv 0 out2 of
               Inl e \<Rightarrow> Inl e
             | Inr out3 \<Rightarrow> Inr (out3, 0))))"

section \<open>Program start\<close>

text \<open>
  What the C runtime hands to \<open>main\<close>: \<open>argc\<close> is the number of strings of \<open>argv\<close>, and
  each of them is a C string, that is, it holds no NUL. An argument sequence of the
  specification is such a list \<open>argv\<close>; its length is the specification's \<open>N\<close>.
\<close>

definition c_string :: "string \<Rightarrow> bool" where
  "c_string s = (CHR 0x00 \<notin> set s)"

definition hosted :: "c_int \<Rightarrow> string list \<Rightarrow> bool" where
  "hosted argc argv = (sint argc = int (length argv) \<and> list_all c_string argv)"

section \<open>The output as lines of text\<close>

text \<open>
  The lines of a text: it is cut at every newline, and the newline is dropped. A last
  piece with no newline after it counts as a line too.
\<close>

definition newline :: char where
  "newline = CHR 0x0A"

fun lines_of :: "string \<Rightarrow> string list" where
  "lines_of [] = []"
| "lines_of (c # cs) =
     (if c = newline then [] # lines_of cs
      else (case lines_of cs of [] \<Rightarrow> [[c]] | l # ls \<Rightarrow> (c # l) # ls))"

text \<open>The text of a list of lines, each followed by its newline.\<close>

definition unlines :: "string list \<Rightarrow> string" where
  "unlines ls = concat (map (\<lambda>l. l @ [newline]) ls)"

definition single_line :: "string \<Rightarrow> bool" where
  "single_line s = (newline \<notin> set s)"

section \<open>The output format of the specification\<close>

text \<open>
  Section 6 of the specification gives the format of the output; these definitions
  follow its words, and the theorems compare what \<open>main\<close> writes with them.
  \<^verbatim>\<open>
  Hello from C executable!
  Received N arguments:
    argv[0]: <value0>
    argv[1]: <value1>
  \<close>
\<close>

definition spec_greeting_line :: string where
  "spec_greeting_line = ''Hello from C executable!''"

definition spec_count_line :: "nat \<Rightarrow> string" where
  "spec_count_line n = ''Received '' @ decimal n @ '' arguments:''"

definition spec_echo_line :: "nat \<Rightarrow> string \<Rightarrow> string" where
  "spec_echo_line i a = ''  argv['' @ decimal i @ '']: '' @ a"

definition spec_echo_lines :: "string list \<Rightarrow> string list" where
  "spec_echo_lines argv = map (\<lambda>i. spec_echo_line i (argv ! i)) [0..<length argv]"

text \<open>
  Reading the output back: the number of a decimal numeral, the number that a count
  line reports, and the index and the value of an echo line.
\<close>

definition is_digit :: "char \<Rightarrow> bool" where
  "is_digit c = (c \<in> set ''0123456789'')"

definition digit_value :: "char \<Rightarrow> nat" where
  "digit_value c = of_char c - 48"

definition read_decimal :: "string \<Rightarrow> nat" where
  "read_decimal s = foldl (\<lambda>n c. 10 * n + digit_value c) 0 s"

definition reported_count :: "string \<Rightarrow> nat" where
  "reported_count l = read_decimal (takeWhile is_digit (drop 9 l))"

definition echo_index :: "string \<Rightarrow> nat" where
  "echo_index l = read_decimal (takeWhile is_digit (drop 7 l))"

definition echo_value :: "string \<Rightarrow> string" where
  "echo_value l = drop 3 (dropWhile is_digit (drop 7 l))"

section \<open>Decimal numerals and lines\<close>

lemma decimal_examples:
  "decimal 0 = ''0''" "decimal 7 = ''7''" "decimal 10 = ''10''" "decimal 409 = ''409''"
  "decimal 2147483647 = ''2147483647''"
  by (simp_all add: decimal.simps digit_char_def)

lemma conv_d_examples:
  "conv_d 0 = ''0''" "conv_d 12 = ''12''" "conv_d (- 3) = ''-3''"
  "conv_d 2147483647 = ''2147483647''" "conv_d 2147483648 = ''-2147483648''"
  by (simp_all add: conv_d_def decimal.simps digit_char_def)

lemma digit_cases: "d < 10 \<Longrightarrow> d \<in> {0, 1, 2, 3, 4, 5, 6, 7, 8, 9::nat}"
  by auto

lemma is_digit_digit_char: "d < 10 \<Longrightarrow> is_digit (digit_char d)"
  by (auto simp: is_digit_def digit_char_def dest!: digit_cases)

lemma digit_value_digit_char: "d < 10 \<Longrightarrow> digit_value (digit_char d) = d"
  by (auto simp: digit_value_def digit_char_def dest!: digit_cases)

lemma decimal_digits: "c \<in> set (decimal n) \<Longrightarrow> is_digit c"
proof (induction n arbitrary: c rule: decimal.induct)
  case (1 n)
  show ?case
  proof (cases "n < 10")
    case True
    with "1.prems" show ?thesis
      by (simp add: decimal.simps [of n] is_digit_digit_char)
  next
    case False
    with "1.prems" "1.IH" show ?thesis
      by (auto simp: decimal.simps [of n] is_digit_digit_char)
  qed
qed

lemma read_decimal_snoc: "read_decimal (s @ [c]) = 10 * read_decimal s + digit_value c"
  by (simp add: read_decimal_def)

lemma read_decimal_decimal: "read_decimal (decimal n) = n"
proof (induction n rule: decimal.induct)
  case (1 n)
  show ?case
  proof (cases "n < 10")
    case True
    then show ?thesis
      by (simp add: decimal.simps [of n] read_decimal_def digit_value_digit_char)
  next
    case False
    with "1.IH" show ?thesis
      by (simp add: decimal.simps [of n] read_decimal_snoc digit_value_digit_char)
  qed
qed

lemma reported_count_count_line: "reported_count (spec_count_line n) = n"
proof -
  have "takeWhile is_digit (decimal n @ '' arguments:'')
      = decimal n @ takeWhile is_digit '' arguments:''"
    by (rule takeWhile_append2) (rule decimal_digits)
  moreover have "takeWhile is_digit '' arguments:'' = []"
    by (simp add: is_digit_def)
  ultimately show ?thesis
    by (simp add: reported_count_def spec_count_line_def read_decimal_decimal)
qed

lemma lines_of_line: "single_line l \<Longrightarrow> lines_of (l @ newline # rest) = l # lines_of rest"
  by (induction l) (auto simp: single_line_def)

lemma lines_of_unlines: "list_all single_line ls \<Longrightarrow> lines_of (unlines ls @ rest) = ls @ lines_of rest"
  by (induction ls) (auto simp: unlines_def lines_of_line)

section \<open>What \<open>main\<close> writes\<close>

lemma format_greeting:
  "format ''Hello from C executable!\<newline>'' vs = Inr ''Hello from C executable!\<newline>''"
  by simp

lemma format_count:
  "format ''Received %d arguments:\<newline>'' [Int_arg n]
     = Inr (''Received '' @ conv_d n @ '' arguments:\<newline>'')"
  by simp

lemma format_echo:
  "format ''  argv[%d]: %s\<newline>'' [Int_arg i, Str_arg a]
     = Inr (''  argv['' @ conv_d i @ '']: '' @ conv_s a @ ''\<newline>'')"
  by simp

lemma conv_d_nat: "sint n = int k \<Longrightarrow> conv_d n = decimal k"
  by (simp add: conv_d_def)

lemma conv_s_c_string: "c_string s \<Longrightarrow> conv_s s = s"
  by (auto simp: conv_s_def c_string_def takeWhile_eq_all_conv)

lemma sint_succ: "i <s (argc :: c_int) \<Longrightarrow> sint (i + 1) = sint i + 1"
proof -
  assume "i <s argc"
  then have lt: "sint i < sint argc" by (simp add: word_sless_alt)
  have "sint argc < 2 ^ 31" using sint_lt [of argc] by simp
  moreover have "- (2 ^ 31) \<le> sint i" using sint_ge [of i] by simp
  ultimately have "- (2 ^ 31) \<le> sint i + 1 \<and> sint i + 1 < 2 ^ 31" using lt by arith
  then show ?thesis
    by (simp add: sint_word_add signed_take_bit_int_eq_self)
qed

lemma echo_step:
  assumes "hosted argc argv" and "sint i = int k" and "k < length argv"
  shows "for_loop argc argv i out
    = for_loop argc argv (i + 1) (out @ spec_echo_line k (argv ! k) @ [newline])"
proof -
  from assms have lt: "i <s argc" by (simp add: hosted_def word_sless_alt)
  from assms have at: "argv_at argv i = Inr (argv ! k)" by (simp add: argv_at_def)
  from assms have "c_string (argv ! k)" by (simp add: hosted_def list_all_length)
  then have "printf ''  argv[%d]: %s\<newline>'' [Int_arg i, Str_arg (argv ! k)] out
      = Inr (out @ spec_echo_line k (argv ! k) @ [newline])"
    unfolding printf_def format_echo
    by (simp add: conv_d_nat [OF assms(2)] conv_s_c_string spec_echo_line_def newline_def)
  with lt at show ?thesis
    by (subst for_loop.simps) simp
qed

lemma for_loop_from:
  assumes "hosted argc argv"
  shows "sint i = int k \<Longrightarrow> k \<le> length argv \<Longrightarrow> j = length argv - k \<Longrightarrow>
    for_loop argc argv i out
      = Inr (out @ unlines (map (\<lambda>m. spec_echo_line m (argv ! m)) [k..<length argv]))"
proof (induction j arbitrary: i k out)
  case 0
  then have "k = length argv" by simp
  with 0 assms have "\<not> i <s argc" by (simp add: hosted_def word_sless_alt)
  then show ?case using \<open>k = length argv\<close>
    by (subst for_loop.simps) (simp add: unlines_def)
next
  case (Suc j)
  then have k: "k < length argv" by simp
  from assms Suc.prems(1) k have "i <s argc" by (simp add: hosted_def word_sless_alt)
  then have "sint (i + 1) = int (Suc k)" using Suc.prems(1) by (simp add: sint_succ)
  moreover have "Suc k \<le> length argv" using k by simp
  moreover have "j = length argv - Suc k" using Suc.prems(3) by simp
  ultimately have "for_loop argc argv (i + 1) (out @ spec_echo_line k (argv ! k) @ [newline])
      = Inr ((out @ spec_echo_line k (argv ! k) @ [newline])
          @ unlines (map (\<lambda>m. spec_echo_line m (argv ! m)) [Suc k..<length argv]))"
    by (rule Suc.IH)
  then show ?case
    using echo_step [OF assms Suc.prems(1) k, of out] k
    by (simp add: upt_conv_Cons unlines_def)
qed

lemma main_closed_form:
  assumes "hosted argc argv"
  shows "main argc argv out
    = Inr (out @ unlines (spec_greeting_line # spec_count_line (length argv) # spec_echo_lines argv), 0)"
proof -
  from assms have n: "sint argc = int (length argv)" by (simp add: hosted_def)
  have "for_loop argc argv 0 out' = Inr (out' @ unlines (spec_echo_lines argv))" for out'
    using for_loop_from [OF assms, of 0 0 "length argv" out']
    by (simp add: spec_echo_lines_def)
  then show ?thesis
    unfolding main_def printf_def format_greeting format_count
    by (simp add: conv_d_nat [OF n] unlines_def spec_greeting_line_def spec_count_line_def newline_def)
qed

section \<open>The lines of what \<open>main\<close> writes\<close>

lemma single_line_decimal: "single_line (decimal n)"
  using decimal_digits [of newline n]
  by (auto simp: single_line_def is_digit_def newline_def)

lemma single_line_greeting: "single_line spec_greeting_line"
  by (simp add: single_line_def spec_greeting_line_def newline_def)

lemma single_line_count: "single_line (spec_count_line n)"
  using single_line_decimal [of n]
  by (simp add: single_line_def spec_count_line_def newline_def)

lemma single_line_echo: "single_line a \<Longrightarrow> single_line (spec_echo_line i a)"
  using single_line_decimal [of i]
  by (simp add: single_line_def spec_echo_line_def newline_def)

lemma single_line_echo_lines: "list_all single_line argv \<Longrightarrow> list_all single_line (spec_echo_lines argv)"
  by (simp add: spec_echo_lines_def list_all_length single_line_echo)

lemma lines_of_output:
  assumes "list_all single_line argv"
  shows "lines_of (unlines (spec_greeting_line # spec_count_line n # spec_echo_lines argv))
    = spec_greeting_line # spec_count_line n # spec_echo_lines argv"
proof -
  have "list_all single_line (spec_greeting_line # spec_count_line n # spec_echo_lines argv)"
    using assms by (simp add: single_line_greeting single_line_count single_line_echo_lines)
  then show ?thesis
    using lines_of_unlines [of _ "[]"] by simp
qed

lemma echo_index_echo_line: "echo_index (spec_echo_line i a) = i"
proof -
  have "takeWhile is_digit (decimal i @ '']: '' @ a) = decimal i @ takeWhile is_digit ('']: '' @ a)"
    by (rule takeWhile_append2) (rule decimal_digits)
  moreover have "takeWhile is_digit ('']: '' @ a) = []"
    by (simp add: is_digit_def)
  ultimately show ?thesis
    by (simp add: echo_index_def spec_echo_line_def read_decimal_decimal)
qed

lemma echo_value_echo_line: "echo_value (spec_echo_line i a) = a"
proof -
  have "dropWhile is_digit (decimal i @ '']: '' @ a) = dropWhile is_digit ('']: '' @ a)"
    by (rule dropWhile_append2) (rule decimal_digits)
  moreover have "dropWhile is_digit ('']: '' @ a) = '']: '' @ a"
    by (simp add: is_digit_def)
  ultimately show ?thesis
    by (simp add: echo_value_def spec_echo_line_def)
qed

text \<open>
  The lines up to the echo line of argument \<open>i\<close> are as the format has them as soon as
  the arguments up to \<open>i\<close> hold no newline, whatever the later ones hold.
\<close>

lemma echo_lines_prefix_single:
  assumes "i < length argv" and "list_all single_line (take (Suc i) argv)"
  shows "list_all single_line (take (Suc i) (spec_echo_lines argv))"
  using assms
  by (auto simp: list_all_length spec_echo_lines_def single_line_echo)

lemma unlines_append: "unlines (xs @ ys) = unlines xs @ unlines ys"
  by (simp add: unlines_def)

lemma lines_of_output_prefix:
  assumes "i < length argv" and "list_all single_line (take (Suc i) argv)"
  shows "lines_of (unlines (spec_greeting_line # spec_count_line n # spec_echo_lines argv))
    = (spec_greeting_line # spec_count_line n # take (Suc i) (spec_echo_lines argv))
      @ lines_of (unlines (drop (Suc i) (spec_echo_lines argv)))"
proof -
  let ?pre = "spec_greeting_line # spec_count_line n # take (Suc i) (spec_echo_lines argv)"
  have "list_all single_line ?pre"
    using echo_lines_prefix_single [OF assms]
    by (simp add: single_line_greeting single_line_count)
  then have "lines_of (unlines ?pre @ unlines (drop (Suc i) (spec_echo_lines argv)))
      = ?pre @ lines_of (unlines (drop (Suc i) (spec_echo_lines argv)))"
    by (rule lines_of_unlines)
  moreover have "unlines ?pre @ unlines (drop (Suc i) (spec_echo_lines argv))
      = unlines (spec_greeting_line # spec_count_line n # spec_echo_lines argv)"
    using unlines_append [of "take (Suc i) (spec_echo_lines argv)" "drop (Suc i) (spec_echo_lines argv)"]
    by (simp add: unlines_def)
  ultimately show ?thesis by simp
qed

lemma echo_line_at:
  assumes "i < length argv" and "list_all single_line (take (Suc i) argv)"
  shows "i + 2 < length (lines_of (unlines (spec_greeting_line # spec_count_line n # spec_echo_lines argv)))"
    and "lines_of (unlines (spec_greeting_line # spec_count_line n # spec_echo_lines argv)) ! (i + 2)
      = spec_echo_line i (argv ! i)"
proof -
  have len: "length (take (Suc i) (spec_echo_lines argv)) = Suc i"
    using assms(1) by (simp add: spec_echo_lines_def)
  show "i + 2 < length (lines_of (unlines (spec_greeting_line # spec_count_line n # spec_echo_lines argv)))"
    unfolding lines_of_output_prefix [OF assms] using len by simp
  have "take (Suc i) (spec_echo_lines argv) ! i = spec_echo_line i (argv ! i)"
    using assms(1) by (simp add: spec_echo_lines_def)
  then show "lines_of (unlines (spec_greeting_line # spec_count_line n # spec_echo_lines argv)) ! (i + 2)
      = spec_echo_line i (argv ! i)"
    unfolding lines_of_output_prefix [OF assms] using len
    by (simp add: nth_append)
qed

text \<open>
  Every argument is written as it is, so each newline inside an argument adds a line to
  the output: the number of lines is \<open>N + 2\<close> and the number of newlines in the arguments.
\<close>

lemma lines_of_line_nonempty: "lines_of (l @ newline # rest) \<noteq> []"
  by (induction l) (auto split: list.splits)

lemma length_lines_of_line:
  "length (lines_of (l @ newline # rest)) = Suc (count_list l newline + length (lines_of rest))"
proof (induction l)
  case Nil
  then show ?case by simp
next
  case (Cons c l)
  then show ?case
    using lines_of_line_nonempty [of l rest]
    by (auto split: list.splits)
qed

lemma length_lines_of_unlines:
  "length (lines_of (unlines ls))
    = length ls + sum_list (map (\<lambda>l. count_list l newline) ls)"
proof (induction ls)
  case Nil
  then show ?case by (simp add: unlines_def)
next
  case (Cons l ls)
  have "unlines (l # ls) = l @ newline # unlines ls"
    by (simp add: unlines_def)
  with Cons show ?case
    by (simp add: length_lines_of_line)
qed

lemma count_decimal: "count_list (decimal n) newline = 0"
  using single_line_decimal [of n] by (simp add: single_line_def count_list_0_iff)

lemma count_echo_line: "count_list (spec_echo_line i a) newline = count_list a newline"
  by (simp add: spec_echo_line_def count_decimal [unfolded newline_def] newline_def)

lemma main_line_count:
  assumes "hosted argc argv"
  shows "\<exists>text. main argc argv '''' = Inr (text, 0)
      \<and> length (lines_of text)
          = length argv + 2 + sum_list (map (\<lambda>a. count_list a newline) argv)"
proof -
  have "sum_list (map (\<lambda>l. count_list l newline) (spec_echo_lines argv))
      = sum_list (map (\<lambda>a. count_list a newline) argv)"
  proof -
    have "map (\<lambda>l. count_list l newline) (spec_echo_lines argv)
        = map (\<lambda>a. count_list a newline) argv"
      by (rule nth_equalityI) (simp_all add: spec_echo_lines_def count_echo_line)
    then show ?thesis by simp
  qed
  moreover have "count_list spec_greeting_line newline = 0"
    by (simp add: spec_greeting_line_def newline_def)
  moreover have "count_list (spec_count_line (length argv)) newline = 0"
    by (simp add: spec_count_line_def count_decimal [unfolded newline_def] newline_def)
  ultimately show ?thesis
    using main_closed_form [OF assms, of "''''"]
    by (simp add: length_lines_of_unlines spec_echo_lines_def)
qed

section \<open>Outside the contract of program start\<close>

text \<open>
  Whatever \<open>argc\<close> and \<open>argv\<close> are, a run that returns returns 0. With an \<open>argc\<close> beyond
  the strings of \<open>argv\<close> the loop reads past them, a negative \<open>argc\<close> is printed with its
  sign, and \<open>%s\<close> stops at a NUL: the contract \<open>hosted\<close> is what the theorems below
  need, and no more.
\<close>

lemma main_status: "main argc argv out = Inr (text, st) \<Longrightarrow> st = 0"
  by (auto simp: main_def split: sum.splits)

lemma main_beyond_argv: "main 2 [''prog''] '''' = Inl Invalid_Read"
  by (simp add: main_def printf_def for_loop.simps argv_at_def conv_d_def conv_s_def
      decimal.simps digit_char_def word_sless_alt)

lemma main_negative_argc:
  "main (- 1) [''prog''] ''''
    = Inr (''Hello from C executable!\<newline>Received -1 arguments:\<newline>'', 0)"
  by (simp add: main_def printf_def for_loop.simps conv_d_def decimal.simps digit_char_def
      word_sless_alt)

lemma conv_s_stops_at_nul: "conv_s [CHR ''a'', CHR 0x00, CHR ''b''] = ''a''"
  by (simp add: conv_s_def)

section \<open>The claims\<close>

text \<open>
  C1. For every argument sequence the program writes, in this order: the greeting line
  \<open>Hello from C executable!\<close>, the count line \<open>Received N arguments:\<close> with \<open>N\<close> the
  number of arguments, the invocation name included, and then one echo line for each
  argument, in the order of the arguments. Each of them ends with a newline, and the
  echo line of argument \<open>i\<close> is two spaces, \<open>argv[i]: \<close>, and the argument. The text is
  appended to whatever standard output held before.
\<close>

theorem output_order:
  assumes "hosted argc argv"
  shows "main argc argv out
    = Inr (out @ ''Hello from C executable!\<newline>''
             @ (''Received '' @ decimal (length argv) @ '' arguments:\<newline>'')
             @ concat (map (\<lambda>i. ''  argv['' @ decimal i @ '']: '' @ argv ! i @ ''\<newline>'')
                 [0..<length argv]), 0)"
  using main_closed_form [OF assms, of out]
  by (simp add: unlines_def spec_greeting_line_def spec_count_line_def spec_echo_lines_def spec_echo_line_def
      newline_def comp_def)

theorem output_order_witness:
  "main 2 [''prog'', ''x''] ''''
    = Inr (''Hello from C executable!\<newline>Received 2 arguments:\<newline>  argv[0]: prog\<newline>  argv[1]: x\<newline>'', 0)"
  using output_order [of 2 "[''prog'', ''x'']" "''''"]
  by (simp add: hosted_def c_string_def decimal.simps digit_char_def upt_conv_Cons)

text \<open>
  C2. As stated (for every argument sequence and every position \<open>i\<close>, the \<open>i\<close>-th echo
  line carries the index \<open>i\<close> and, after it, the argument itself, whatever its
  characters), the claim fails: an argument is written as it is, so of an argument that
  holds a newline the echo line shows the part before the newline only. With the
  arguments \<open>prog\<close>, \<open>one\<newline>two\<close> and \<open>z\<close>, the echo line with index 1 is
  \<open>  argv[1]: one\<close>: its value is \<open>one\<close>, not the argument, and \<open>two\<close> is a line of
  its own.
\<close>

theorem echo_line_content_counterexample:
  "hosted 3 [''prog'', ''one\<newline>two'', ''z'']
   \<and> main 3 [''prog'', ''one\<newline>two'', ''z''] ''''
       = Inr (''Hello from C executable!\<newline>Received 3 arguments:\<newline>  argv[0]: prog\<newline>  argv[1]: one\<newline>two\<newline>  argv[2]: z\<newline>'', 0)
   \<and> lines_of ''Hello from C executable!\<newline>Received 3 arguments:\<newline>  argv[0]: prog\<newline>  argv[1]: one\<newline>two\<newline>  argv[2]: z\<newline>''
       = [''Hello from C executable!'', ''Received 3 arguments:'', ''  argv[0]: prog'',
          ''  argv[1]: one'', ''two'', ''  argv[2]: z'']
   \<and> echo_index ''  argv[1]: one'' = 1
   \<and> echo_value ''  argv[1]: one'' = ''one''
   \<and> echo_value ''  argv[1]: one'' \<noteq> [''prog'', ''one\<newline>two'', ''z''] ! 1"
  by (simp add: hosted_def c_string_def main_def printf_def for_loop.simps argv_at_def
      conv_d_def conv_s_def decimal.simps digit_char_def word_sless_alt newline_def
      echo_index_def echo_value_def read_decimal_def is_digit_def digit_value_def)

text \<open>
  C2, amended. For every argument sequence and every position \<open>i\<close> in it such that no
  argument at the positions 0 to \<open>i\<close> holds a newline, the \<open>i\<close>-th echo line, which is line
  \<open>i + 2\<close> of the output (counted from 0), is two spaces, \<open>argv[i]: \<close> and the argument
  itself: read back, it carries the index \<open>i\<close>, and its value is the argument, byte for
  byte (none, blanks, any byte but newline and NUL). In particular this holds at every
  position when no argument holds a newline.
\<close>

theorem echo_line_content:
  assumes "hosted argc argv"
  shows "\<exists>text. main argc argv '''' = Inr (text, 0)
      \<and> (\<forall>i<length argv. list_all single_line (take (Suc i) argv) \<longrightarrow>
            i + 2 < length (lines_of text)
          \<and> lines_of text ! (i + 2) = ''  argv['' @ decimal i @ '']: '' @ argv ! i
          \<and> echo_index (lines_of text ! (i + 2)) = i
          \<and> echo_value (lines_of text ! (i + 2)) = argv ! i)"
proof -
  let ?text = "unlines (spec_greeting_line # spec_count_line (length argv) # spec_echo_lines argv)"
  have "main argc argv '''' = Inr (?text, 0)"
    using main_closed_form [OF assms, of "''''"] by simp
  moreover have "i + 2 < length (lines_of ?text)
      \<and> lines_of ?text ! (i + 2) = ''  argv['' @ decimal i @ '']: '' @ argv ! i
      \<and> echo_index (lines_of ?text ! (i + 2)) = i
      \<and> echo_value (lines_of ?text ! (i + 2)) = argv ! i"
    if "i < length argv" and "list_all single_line (take (Suc i) argv)" for i
  proof -
    have "lines_of ?text ! (i + 2) = spec_echo_line i (argv ! i)"
      using that by (rule echo_line_at(2))
    moreover have "i + 2 < length (lines_of ?text)"
      using that by (rule echo_line_at(1))
    ultimately show ?thesis
      by (simp add: echo_index_echo_line echo_value_echo_line) (simp add: spec_echo_line_def)
  qed
  ultimately show ?thesis by blast
qed

theorem echo_line_content_witness:
  "\<exists>text. main 4 [''prog'', '''', ''a b'', ''x\<newline>y''] '''' = Inr (text, 0)
      \<and> lines_of text ! 3 = ''  argv[1]: ''
      \<and> echo_index (lines_of text ! 3) = 1
      \<and> echo_value (lines_of text ! 3) = ''''
      \<and> lines_of text ! 4 = ''  argv[2]: a b''
      \<and> echo_index (lines_of text ! 4) = 2
      \<and> echo_value (lines_of text ! 4) = ''a b''"
proof -
  have h: "hosted 4 [''prog'', '''', ''a b'', ''x\<newline>y'']"
    by (simp add: hosted_def c_string_def)
  from echo_line_content [OF h] obtain t where
    m: "main 4 [''prog'', '''', ''a b'', ''x\<newline>y''] '''' = Inr (t, 0)" and
    a: "\<forall>i<length [''prog'', '''', ''a b'', ''x\<newline>y''].
          list_all single_line (take (Suc i) [''prog'', '''', ''a b'', ''x\<newline>y'']) \<longrightarrow>
            i + 2 < length (lines_of t)
          \<and> lines_of t ! (i + 2)
              = ''  argv['' @ decimal i @ '']: '' @ [''prog'', '''', ''a b'', ''x\<newline>y''] ! i
          \<and> echo_index (lines_of t ! (i + 2)) = i
          \<and> echo_value (lines_of t ! (i + 2)) = [''prog'', '''', ''a b'', ''x\<newline>y''] ! i"
    by blast
  have "lines_of t ! 3 = ''  argv[1]: ''
      \<and> echo_index (lines_of t ! 3) = 1 \<and> echo_value (lines_of t ! 3) = ''''"
    using a [rule_format, of 1]
    by (simp add: single_line_def newline_def decimal.simps digit_char_def numeral_3_eq_3
        echo_index_def echo_value_def read_decimal_def is_digit_def digit_value_def)
  moreover have "lines_of t ! 4 = ''  argv[2]: a b''
      \<and> echo_index (lines_of t ! 4) = 2 \<and> echo_value (lines_of t ! 4) = ''a b''"
    using a [rule_format, of 2]
    by (simp add: single_line_def newline_def decimal.simps digit_char_def eval_nat_numeral
        echo_index_def echo_value_def read_decimal_def is_digit_def digit_value_def)
  ultimately show ?thesis using m by blast
qed

text \<open>
  C3. As stated (for every argument sequence of length \<open>N \<ge> 1\<close> the complete output has
  exactly \<open>N + 2\<close> lines), the claim fails: an argument is written as it is, so an
  argument that holds a newline spreads over two lines of the output. With the two
  arguments \<open>prog\<close> and \<open>a\<newline>b\<close> the output has five lines, not four.
\<close>

theorem line_count_counterexample:
  "hosted 2 [''prog'', ''a\<newline>b'']
   \<and> main 2 [''prog'', ''a\<newline>b''] ''''
       = Inr (''Hello from C executable!\<newline>Received 2 arguments:\<newline>  argv[0]: prog\<newline>  argv[1]: a\<newline>b\<newline>'', 0)
   \<and> lines_of ''Hello from C executable!\<newline>Received 2 arguments:\<newline>  argv[0]: prog\<newline>  argv[1]: a\<newline>b\<newline>''
       = [''Hello from C executable!'', ''Received 2 arguments:'', ''  argv[0]: prog'', ''  argv[1]: a'', ''b'']
   \<and> length (lines_of ''Hello from C executable!\<newline>Received 2 arguments:\<newline>  argv[0]: prog\<newline>  argv[1]: a\<newline>b\<newline>'')
       \<noteq> length [''prog'', ''a\<newline>b''] + 2"
  by (simp add: hosted_def c_string_def main_def printf_def for_loop.simps argv_at_def
      conv_d_def conv_s_def decimal.simps digit_char_def word_sless_alt newline_def)

text \<open>
  C3, amended. For every argument sequence of length \<open>N\<close> in which no argument holds a
  newline, the complete output has exactly \<open>N + 2\<close> lines: the greeting line, the count
  line, which states \<open>N\<close>, and the \<open>N\<close> echo lines. (It holds for \<open>N = 0\<close> as for
  \<open>N \<ge> 1\<close>.)
\<close>

theorem line_count:
  assumes "hosted argc argv" and "list_all single_line argv"
  shows "\<exists>text. main argc argv '''' = Inr (text, 0)
      \<and> lines_of text = spec_greeting_line # spec_count_line (length argv) # spec_echo_lines argv
      \<and> length (lines_of text) = length argv + 2
      \<and> reported_count (lines_of text ! 1) = length argv"
  using main_closed_form [OF assms(1), of "''''"] lines_of_output [OF assms(2), of "length argv"]
  by (simp add: reported_count_count_line spec_echo_lines_def)

theorem line_count_witness:
  "\<exists>text. main 2 [''prog'', ''a b''] '''' = Inr (text, 0)
      \<and> lines_of text = [''Hello from C executable!'', ''Received 2 arguments:'',
           ''  argv[0]: prog'', ''  argv[1]: a b'']
      \<and> length (lines_of text) = 4"
  using line_count [of 2 "[''prog'', ''a b'']"]
  by (auto simp: hosted_def c_string_def single_line_def newline_def spec_greeting_line_def
      spec_count_line_def spec_echo_lines_def spec_echo_line_def decimal.simps digit_char_def upt_conv_Cons)

text \<open>
  C4. As stated (for every argument sequence the number in the count line is the number
  of echo lines that follow it in the output), the claim fails for the same reason: with
  the two arguments \<open>prog\<close> and \<open>x\<newline>  argv[2]: y\<close> the count line reports 2 and three
  lines follow it, each of them of the form of an echo line.
\<close>

theorem count_matches_echo_lines_counterexample:
  "hosted 2 [''prog'', ''x\<newline>  argv[2]: y'']
   \<and> main 2 [''prog'', ''x\<newline>  argv[2]: y''] ''''
       = Inr (''Hello from C executable!\<newline>Received 2 arguments:\<newline>  argv[0]: prog\<newline>  argv[1]: x\<newline>  argv[2]: y\<newline>'', 0)
   \<and> lines_of ''Hello from C executable!\<newline>Received 2 arguments:\<newline>  argv[0]: prog\<newline>  argv[1]: x\<newline>  argv[2]: y\<newline>''
       = [''Hello from C executable!'', ''Received 2 arguments:'', ''  argv[0]: prog'', ''  argv[1]: x'', ''  argv[2]: y'']
   \<and> reported_count ''Received 2 arguments:''
       \<noteq> length [''  argv[0]: prog'', ''  argv[1]: x'', ''  argv[2]: y'']"
  by (simp add: hosted_def c_string_def main_def printf_def for_loop.simps argv_at_def
      conv_d_def conv_s_def decimal.simps digit_char_def word_sless_alt newline_def
      reported_count_def read_decimal_def is_digit_def digit_value_def)

text \<open>
  C4, amended. For every argument sequence in which no argument holds a newline, the
  number that the count line (the second line of the output) reports is the number of
  lines that follow it in the output, all of them echo lines.
\<close>

theorem count_matches_echo_lines:
  assumes "hosted argc argv" and "list_all single_line argv"
  shows "\<exists>text. main argc argv '''' = Inr (text, 0)
      \<and> reported_count (lines_of text ! 1) = length (drop 2 (lines_of text))
      \<and> drop 2 (lines_of text) = spec_echo_lines argv"
  using main_closed_form [OF assms(1), of "''''"] lines_of_output [OF assms(2), of "length argv"]
  by (simp add: reported_count_count_line spec_echo_lines_def)

theorem count_matches_echo_lines_witness:
  "\<exists>text. main 3 [''prog'', ''-v'', ''file.txt''] '''' = Inr (text, 0)
      \<and> reported_count (lines_of text ! 1) = length (drop 2 (lines_of text))"
  using count_matches_echo_lines [of 3 "[''prog'', ''-v'', ''file.txt'']"]
  by (auto simp: hosted_def c_string_def single_line_def newline_def)

text \<open>
  C5. For every argument sequence, the one that holds the invocation name alone
  included, the program ends with exit status 0. (\<open>main_status\<close> above adds that no
  \<open>argc\<close> and \<open>argv\<close> at all give another status.)
\<close>

theorem exit_status_zero:
  assumes "hosted argc argv"
  shows "\<exists>text. main argc argv out = Inr (text, 0)"
  using main_closed_form [OF assms, of out] by simp

theorem exit_status_zero_witness:
  "\<exists>text. main 1 [''prog''] '''' = Inr (text, 0)"
  using exit_status_zero [of 1 "[''prog'']" "''''"]
  by (simp add: hosted_def c_string_def)

text \<open>
  C6. As stated (with the program name alone the output has exactly three lines), the
  claim fails when the name under which the program is invoked holds a newline: with
  the name \<open>my\<newline>prog\<close> the output has four lines.
\<close>

theorem only_program_name_counterexample:
  "hosted 1 [''my\<newline>prog'']
   \<and> main 1 [''my\<newline>prog''] ''''
       = Inr (''Hello from C executable!\<newline>Received 1 arguments:\<newline>  argv[0]: my\<newline>prog\<newline>'', 0)
   \<and> lines_of ''Hello from C executable!\<newline>Received 1 arguments:\<newline>  argv[0]: my\<newline>prog\<newline>''
       = [''Hello from C executable!'', ''Received 1 arguments:'', ''  argv[0]: my'', ''prog'']
   \<and> length (lines_of ''Hello from C executable!\<newline>Received 1 arguments:\<newline>  argv[0]: my\<newline>prog\<newline>'') \<noteq> 3"
  by (simp add: hosted_def c_string_def main_def printf_def for_loop.simps argv_at_def
      conv_d_def conv_s_def decimal.simps digit_char_def word_sless_alt newline_def)

text \<open>
  C6, amended. When the argument sequence is the program name alone, and the name holds
  no newline, the output has exactly three lines: the greeting line, the count line
  \<open>Received 1 arguments:\<close>, and the echo line \<open>  argv[0]: \<close> followed by the name.
\<close>

theorem only_program_name:
  assumes "hosted argc [p]" and "single_line p"
  shows "\<exists>text. main argc [p] '''' = Inr (text, 0)
      \<and> lines_of text
          = [''Hello from C executable!'', ''Received 1 arguments:'', ''  argv[0]: '' @ p]"
  using main_closed_form [OF assms(1), of "''''"] lines_of_output [of "[p]" 1] assms(2)
  by (simp add: spec_greeting_line_def spec_count_line_def spec_echo_lines_def spec_echo_line_def
      decimal.simps digit_char_def)

theorem only_program_name_witness:
  "\<exists>text. main 1 [''./pip_exec''] '''' = Inr (text, 0)
      \<and> lines_of text
          = [''Hello from C executable!'', ''Received 1 arguments:'', ''  argv[0]: ./pip_exec'']"
  using only_program_name [of 1 "''./pip_exec''"]
  by (simp add: hosted_def c_string_def single_line_def newline_def)

text \<open>
  C7. With the four arguments \<open>prog\<close>, \<open>a\<close>, the empty string and \<open>hello world\<close>, the
  count line is \<open>Received 4 arguments:\<close>, and exactly four echo lines follow it, with
  the values \<open>prog\<close>, \<open>a\<close>, nothing, and \<open>hello world\<close> with its blank.
\<close>

theorem four_arguments:
  "hosted 4 [''prog'', ''a'', '''', ''hello world'']
   \<and> main 4 [''prog'', ''a'', '''', ''hello world''] ''''
       = Inr (''Hello from C executable!\<newline>Received 4 arguments:\<newline>  argv[0]: prog\<newline>  argv[1]: a\<newline>  argv[2]: \<newline>  argv[3]: hello world\<newline>'', 0)
   \<and> lines_of ''Hello from C executable!\<newline>Received 4 arguments:\<newline>  argv[0]: prog\<newline>  argv[1]: a\<newline>  argv[2]: \<newline>  argv[3]: hello world\<newline>''
       = [''Hello from C executable!'', ''Received 4 arguments:'',
          ''  argv[0]: prog'', ''  argv[1]: a'', ''  argv[2]: '', ''  argv[3]: hello world'']"
  by (simp add: hosted_def c_string_def main_def printf_def for_loop.simps argv_at_def
      conv_d_def conv_s_def decimal.simps digit_char_def word_sless_alt newline_def)

text \<open>
  C9. The program has no error path: for every argument sequence, with empty strings
  and with any bytes in it, no fault arises, nothing is rejected, and the whole output
  is written: the greeting line, the count line and an echo line for every argument.
\<close>

theorem no_error_path:
  assumes "hosted argc argv"
  shows "(\<forall>e. main argc argv out \<noteq> Inl e)
      \<and> main argc argv out
          = Inr (out @ unlines (spec_greeting_line # spec_count_line (length argv) # spec_echo_lines argv), 0)
      \<and> length (spec_echo_lines argv) = length argv"
  using main_closed_form [OF assms, of out] by (simp add: spec_echo_lines_def)

theorem no_error_path_witness:
  "main 3 [''prog'', '''', [CHR 0x09, CHR ''*'', CHR 0x0A, CHR 0xFF]] '''' \<noteq> Inl Bad_Format
   \<and> main 3 [''prog'', '''', [CHR 0x09, CHR ''*'', CHR 0x0A, CHR 0xFF]] '''' \<noteq> Inl Invalid_Read
   \<and> main 3 [''prog'', '''', [CHR 0x09, CHR ''*'', CHR 0x0A, CHR 0xFF]] ''''
       = Inr (''Hello from C executable!\<newline>Received 3 arguments:\<newline>  argv[0]: prog\<newline>  argv[1]: \<newline>  argv[2]: '' @ [CHR 0x09, CHR ''*'', CHR 0x0A, CHR 0xFF, CHR 0x0A], 0)"
  using no_error_path [of 3 "[''prog'', '''', [CHR 0x09, CHR ''*'', CHR 0x0A, CHR 0xFF]]" "''''"]
  by (simp add: hosted_def c_string_def unlines_def newline_def spec_greeting_line_def
      spec_count_line_def spec_echo_lines_def spec_echo_line_def decimal.simps digit_char_def upt_conv_Cons)

text \<open>
  C10. With the empty argument sequence (\<open>argc\<close> is 0) the program writes two lines, the
  greeting line and the count line \<open>Received 0 arguments:\<close>, no echo line, and ends
  with exit status 0.
\<close>

theorem empty_argument_sequence:
  "hosted 0 []
   \<and> main 0 [] '''' = Inr (''Hello from C executable!\<newline>Received 0 arguments:\<newline>'', 0)
   \<and> lines_of ''Hello from C executable!\<newline>Received 0 arguments:\<newline>''
       = [''Hello from C executable!'', ''Received 0 arguments:'']"
  by (simp add: hosted_def main_def printf_def for_loop.simps
      conv_d_def decimal.simps digit_char_def word_sless_alt newline_def)

end
